theory Spec2Isabelle
  imports Main "HOL-Library.Sublist"
begin

section \<open>JavaScript values and string primitives used by Home.jsx\<close>

text \<open>
  Identifiers arrive from JSON payloads and are compared by the component either with
  \<^verbatim>\<open>===\<close> or after \<^verbatim>\<open>String(...)\<close>. They are modelled as the JavaScript
  values an identifier can be: \<^verbatim>\<open>undefined\<close>, \<^verbatim>\<open>null\<close>, an integer number or a
  string. Strict equality on these values is HOL equality. Strings are sequences of ASCII
  code units.
\<close>

datatype jsval = Undefined | Null | Num int | Str string

definition digit_char :: "nat \<Rightarrow> char" where
  "digit_char d = ''0123456789'' ! d"

fun digits :: "nat \<Rightarrow> string" where
  "digits n = (if n < 10 then [digit_char n] else digits (n div 10) @ [digit_char (n mod 10)])"

declare digits.simps [simp del]

text \<open>\<^verbatim>\<open>String(v)\<close>: the decimal numeral of an integer, the string itself, or the names
  of \<^verbatim>\<open>undefined\<close> and \<^verbatim>\<open>null\<close>.\<close>

fun String_js :: "jsval \<Rightarrow> string" where
  "String_js Undefined = ''undefined''"
| "String_js Null = ''null''"
| "String_js (Num n) = (if n < 0 then CHR ''-'' # digits (nat (- n)) else digits (nat n))"
| "String_js (Str s) = s"

text \<open>White space stripped by \<^verbatim>\<open>String.prototype.trim\<close>, within ASCII: tab, line feed,
  vertical tab, form feed, carriage return and space.\<close>

definition is_ws :: "char \<Rightarrow> bool" where
  "is_ws c = (c \<in> set [CHR 0x09, CHR 0x0A, CHR 0x0B, CHR 0x0C, CHR 0x0D, CHR '' ''])"

definition trim :: "string \<Rightarrow> string" where
  "trim s = rev (dropWhile is_ws (rev (dropWhile is_ws s)))"

text \<open>\<^verbatim>\<open>s.split(",")\<close>: the pieces between commas; the empty string yields one empty
  piece.\<close>

fun split_comma :: "string \<Rightarrow> string list" where
  "split_comma [] = [[]]"
| "split_comma (c # cs) =
     (if c = CHR '','' then [] # split_comma cs
      else (case split_comma cs of
              [] \<Rightarrow> [[c]]
            | w # ws \<Rightarrow> (c # w) # ws))"

text \<open>\<^verbatim>\<open>c.toLowerCase()\<close> on one ASCII code unit, and on a string.\<close>

definition toLowerChar :: "char \<Rightarrow> char" where
  "toLowerChar c =
     (case map_of (zip ''ABCDEFGHIJKLMNOPQRSTUVWXYZ'' ''abcdefghijklmnopqrstuvwxyz'') c of
        None \<Rightarrow> c
      | Some l \<Rightarrow> l)"

definition toLowerCase :: "string \<Rightarrow> string" where
  "toLowerCase s = map toLowerChar s"

text \<open>\<^verbatim>\<open>hay.includes(q)\<close> on strings: \<open>q\<close> occurs in \<open>hay\<close> at some offset.\<close>

fun str_includes :: "string \<Rightarrow> string \<Rightarrow> bool" where
  "str_includes [] q = (q = [])"
| "str_includes (h # hs) q = (prefix q (h # hs) \<or> str_includes hs q)"

section \<open>Data model\<close>

record userref =
  ur_id :: jsval
  username :: "string option"
  followers :: "jsval list option"

record comment =
  c_id :: jsval
  c_text :: string
  c_user :: userref

record reaction =
  userId :: jsval
  reactionType :: string

text \<open>A post as the component reads it. The fields guarded in the source by \<^verbatim>\<open>?.\<close> or
  by a truthiness test (\<^verbatim>\<open>title\<close>, \<^verbatim>\<open>content\<close>, \<^verbatim>\<open>tags\<close>, \<^verbatim>\<open>comments\<close>,
  \<^verbatim>\<open>reactions\<close>, \<^verbatim>\<open>user\<close>) are optional: \<open>None\<close> stands for \<^verbatim>\<open>undefined\<close> or
  \<^verbatim>\<open>null\<close>.\<close>

record post =
  p_id :: jsval
  title :: "string option"
  content :: "string option"
  tags :: "string option"
  comments :: "comment list option"
  reactions :: "reaction list option"
  p_user :: "userref option"

text \<open>The authenticated identity held by the AuthContext.\<close>

record auth_user =
  au_id :: jsval
  token :: "string option"

text \<open>An error as the \<^verbatim>\<open>catch\<close> blocks inspect it: \<open>err_status\<close> is
  \<^verbatim>\<open>err.response?.status\<close>, \<open>None\<close> when the error carries no response.\<close>

datatype js_error = JsError (err_message: string) (err_status: "int option")

text \<open>The calls to the functions imported from \<^verbatim>\<open>api.js\<close>, as a log of requests issued.\<close>

datatype request =
    GetPosts "string option"
  | CommentOnPost jsval string "string option"
  | UpdateComment jsval jsval string "string option"
  | DeleteComment jsval "string option"
  | AddReaction jsval string "string option"
  | FollowUser jsval "string option"

text \<open>The state of the \<^verbatim>\<open>Home\<close> component that the synchronisation logic reads and
  writes: the values taken from the AuthContext (\<open>user\<close>, \<open>showAuthForm\<close>, \<open>isLogin\<close>), the
  \<^verbatim>\<open>useState\<close> cells, and the log \<open>net\<close> of the remote requests issued so far.
  \<open>newComments\<close> is an object keyed by post id, so its keys are the strings
  \<open>String_js postId\<close>.\<close>

record home =
  user :: "auth_user option"
  showAuthForm :: bool
  isLogin :: bool
  posts :: "post list"
  filteredPosts :: "post list"
  loading :: bool
  newComments :: "string \<rightharpoonup> string"
  editingCommentId :: jsval
  editedCommentText :: string
  showReactions :: jsval
  selectedTag :: string
  searchQuery :: string
  error :: string
  net :: "request list"

section \<open>View projection: the filtering effect (Home.jsx, lines 74-88)\<close>

text \<open>The callback of the first \<^verbatim>\<open>filter\<close> (line 77):
  \<^verbatim>\<open>post.tags && post.tags.split(",").map((tag) => tag.trim()).includes(selectedTag)\<close>.\<close>

definition tagMatches :: "string \<Rightarrow> post \<Rightarrow> bool" where
  "tagMatches sel p =
     (case tags p of
        None \<Rightarrow> False
      | Some t \<Rightarrow> t \<noteq> [] \<and> List.member (map trim (split_comma t)) sel)"

text \<open>The callback of the second \<^verbatim>\<open>filter\<close> (lines 82-84); \<open>query\<close> is already lowered
  and trimmed.\<close>

definition queryMatches :: "string \<Rightarrow> post \<Rightarrow> bool" where
  "queryMatches query p =
     ((case title p of None \<Rightarrow> False | Some t \<Rightarrow> str_includes (toLowerCase t) query) \<or>
      (case content p of None \<Rightarrow> False | Some c \<Rightarrow> str_includes (toLowerCase c) query))"

definition tagStage :: "string \<Rightarrow> post list \<Rightarrow> post list" where
  "tagStage sel result = (if sel \<noteq> ''All'' then filter (tagMatches sel) result else result)"

definition searchStage :: "string \<Rightarrow> post list \<Rightarrow> post list" where
  "searchStage q result =
     (if trim q \<noteq> [] then filter (queryMatches (trim (toLowerCase q))) result else result)"

definition filterEffect :: "home \<Rightarrow> home" where
  "filterEffect s =
     s\<lparr>filteredPosts := searchStage (searchQuery s) (tagStage (selectedTag s) (posts s))\<rparr>"

section \<open>Session invalidation\<close>

text \<open>Modelled from the spec: \<^verbatim>\<open>logout\<close> is provided by the AuthContext
  (\<^verbatim>\<open>../context/AuthContext\<close>), whose source is not part of the component file. The
  specification says that the session (identity and token) is destroyed on logout, so the
  model sets \<open>user\<close> to \<^verbatim>\<open>null\<close>. The context's \<^verbatim>\<open>setShowAuthForm\<close> and
  \<^verbatim>\<open>setIsLogin\<close> are taken to be the setters of \<open>showAuthForm\<close> and \<open>isLogin\<close>.\<close>

definition logout :: "home \<Rightarrow> home" where
  "logout s = s\<lparr>user := None\<rparr>"

text \<open>The branch every \<^verbatim>\<open>catch\<close> block takes when \<^verbatim>\<open>err.response?.status === 401\<close>:
  \<^verbatim>\<open>logout(); setShowAuthForm(true); setIsLogin(true); setError("Session expired. ...")\<close>.\<close>

definition on401 :: "home \<Rightarrow> home" where
  "on401 s = (logout s)\<lparr>showAuthForm := True, isLogin := True,
                        error := ''Session expired. Please log in again.''\<rparr>"

section \<open>Feed store: fetchPosts (lines 36-58) and the effect on user (lines 60-67)\<close>

text \<open>The error thrown at line 40 when \<^verbatim>\<open>!user?.token\<close>.\<close>

definition AuthRequired :: js_error where
  "AuthRequired = JsError ''No authentication token found. Please log in.'' None"

text \<open>\<^verbatim>\<open>user?.token\<close> when it is truthy.\<close>

definition userToken :: "home \<Rightarrow> string option" where
  "userToken s =
     (case user s of
        None \<Rightarrow> None
      | Some u \<Rightarrow> (case token u of None \<Rightarrow> None | Some t \<Rightarrow> if t = [] then None else Some t))"

text \<open>The \<^verbatim>\<open>try\<close> block up to the \<^verbatim>\<open>await\<close>: either the throw of line 40, or the call
  \<^verbatim>\<open>getPosts(user.token)\<close>, whose outcome \<open>r\<close> is given by the remote service.\<close>

definition fetchPosts_try :: "home \<Rightarrow> js_error + post list \<Rightarrow> home \<times> (js_error + post list)" where
  "fetchPosts_try s r =
     (case userToken s of
        None \<Rightarrow> (s, Inl AuthRequired)
      | Some t \<Rightarrow> (s\<lparr>net := net s @ [GetPosts (Some t)]\<rparr>, r))"

definition fetchPosts_catch :: "home \<Rightarrow> js_error \<Rightarrow> home" where
  "fetchPosts_catch s err =
     (if err_status err = Some 401 then on401 s
      else s\<lparr>error := ''Failed to load posts. Please try again later.''\<rparr>)"

definition fetchPosts :: "home \<Rightarrow> js_error + post list \<Rightarrow> home" where
  "fetchPosts s r =
     (case fetchPosts_try (s\<lparr>loading := True\<rparr>) r of
        (s1, Inr postsData) \<Rightarrow> s1\<lparr>posts := postsData, filteredPosts := postsData, loading := False\<rparr>
      | (s1, Inl err) \<Rightarrow> (fetchPosts_catch s1 err)\<lparr>loading := False\<rparr>)"

text \<open>The effect keyed on \<^verbatim>\<open>[user]\<close>; React runs it after a render in which \<open>user\<close>
  differs from the previous render.\<close>

definition userEffect :: "home \<Rightarrow> js_error + post list \<Rightarrow> home" where
  "userEffect s r =
     (case user s of
        Some u \<Rightarrow> fetchPosts s r
      | None \<Rightarrow> s\<lparr>posts := [], filteredPosts := []\<rparr>)"

section \<open>Mutations\<close>

text \<open>The expression \<^verbatim>\<open>posts.map((p) => (p.id === postId ? updatedPost : p))\<close> of lines
  94, 117 and 158.\<close>

definition patch :: "post list \<Rightarrow> jsval \<Rightarrow> post \<Rightarrow> post list" where
  "patch ps postId updatedPost = map (\<lambda>p. if p_id p = postId then updatedPost else p) ps"

text \<open>The \<^verbatim>\<open>catch\<close> block shared by the comment and reaction handlers: only a 401 is
  acted upon.\<close>

definition mutation_catch :: "home \<Rightarrow> js_error \<Rightarrow> home" where
  "mutation_catch s err = (if err_status err = Some 401 then on401 s else s)"

text \<open>\<^verbatim>\<open>handleCommentSubmit\<close> (lines 90-105); \<open>r\<close> is the outcome of
  \<^verbatim>\<open>commentOnPost\<close>.\<close>

definition handleCommentSubmit :: "home \<Rightarrow> jsval \<Rightarrow> js_error + post \<Rightarrow> home" where
  "handleCommentSubmit s postId r =
     (case user s of
        None \<Rightarrow> s
      | Some u \<Rightarrow>
          (case newComments s (String_js postId) of
             None \<Rightarrow> s
           | Some txt \<Rightarrow>
               if trim txt = [] then s
               else
                 (let s1 = s\<lparr>net := net s @ [CommentOnPost postId txt (token u)]\<rparr> in
                  case r of
                    Inr updatedPost \<Rightarrow>
                      s1\<lparr>posts := patch (posts s) postId updatedPost,
                         newComments := (newComments s)(String_js postId \<mapsto> [])\<rparr>
                  | Inl err \<Rightarrow> mutation_catch s1 err)))"

text \<open>\<^verbatim>\<open>startEditingComment\<close> (lines 107-111).\<close>

definition startEditingComment :: "home \<Rightarrow> comment \<Rightarrow> home" where
  "startEditingComment s c =
     (case user s of
        None \<Rightarrow> s
      | Some u \<Rightarrow>
          if String_js (au_id u) \<noteq> String_js (ur_id (c_user c)) then s
          else s\<lparr>editingCommentId := c_id c, editedCommentText := c_text c\<rparr>)"

text \<open>\<^verbatim>\<open>handleCommentUpdate\<close> (lines 113-129); \<open>r\<close> is the outcome of
  \<^verbatim>\<open>updateComment\<close>.\<close>

definition handleCommentUpdate :: "home \<Rightarrow> jsval \<Rightarrow> jsval \<Rightarrow> js_error + post \<Rightarrow> home" where
  "handleCommentUpdate s postId commentId r =
     (case user s of
        None \<Rightarrow> s
      | Some u \<Rightarrow>
          if trim (editedCommentText s) = [] then s
          else
            (let s1 = s\<lparr>net := net s @
                           [UpdateComment postId commentId (editedCommentText s) (token u)]\<rparr> in
             case r of
               Inr updatedPost \<Rightarrow>
                 s1\<lparr>posts := patch (posts s) postId updatedPost,
                    editingCommentId := Null, editedCommentText := []\<rparr>
             | Inl err \<Rightarrow> mutation_catch s1 err))"

text \<open>The \<^verbatim>\<open>map\<close> of lines 135-137. Reading \<^verbatim>\<open>p.comments.filter\<close> on a matching post
  without a comment array throws a TypeError, which carries no response.\<close>

fun removeComment :: "post list \<Rightarrow> jsval \<Rightarrow> jsval \<Rightarrow> js_error + post list" where
  "removeComment [] postId commentId = Inr []"
| "removeComment (p # ps) postId commentId =
     (if p_id p = postId then
        (case comments p of
           None \<Rightarrow> Inl (JsError ''TypeError'' None)
         | Some cs \<Rightarrow>
             (case removeComment ps postId commentId of
                Inl e \<Rightarrow> Inl e
              | Inr ps' \<Rightarrow> Inr (p\<lparr>comments := Some (filter (\<lambda>c. c_id c \<noteq> commentId) cs)\<rparr> # ps')))
      else
        (case removeComment ps postId commentId of
           Inl e \<Rightarrow> Inl e
         | Inr ps' \<Rightarrow> Inr (p # ps')))"

text \<open>\<^verbatim>\<open>handleCommentDelete\<close> (lines 131-148); \<open>r\<close> is the outcome of
  \<^verbatim>\<open>deleteComment\<close>.\<close>

definition handleCommentDelete :: "home \<Rightarrow> jsval \<Rightarrow> jsval \<Rightarrow> js_error + unit \<Rightarrow> home" where
  "handleCommentDelete s postId commentId r =
     (case user s of
        None \<Rightarrow> s
      | Some u \<Rightarrow>
          (let s1 = s\<lparr>net := net s @ [DeleteComment commentId (token u)]\<rparr> in
           case r of
             Inl err \<Rightarrow> mutation_catch s1 err
           | Inr _ \<Rightarrow>
               (case removeComment (posts s) postId commentId of
                  Inl err \<Rightarrow> mutation_catch s1 err
                | Inr ps \<Rightarrow> s1\<lparr>posts := ps, editingCommentId := Null\<rparr>)))"

text \<open>\<^verbatim>\<open>handleReaction\<close> (lines 154-169); \<open>r\<close> is the outcome of \<^verbatim>\<open>addReaction\<close>.\<close>

definition handleReaction :: "home \<Rightarrow> jsval \<Rightarrow> string \<Rightarrow> js_error + post \<Rightarrow> home" where
  "handleReaction s postId rtype r =
     (case user s of
        None \<Rightarrow> s
      | Some u \<Rightarrow>
          (let s1 = s\<lparr>net := net s @ [AddReaction postId rtype (token u)]\<rparr>;
               s2 = (case r of
                       Inr updatedPost \<Rightarrow> s1\<lparr>posts := patch (posts s) postId updatedPost\<rparr>
                     | Inl err \<Rightarrow> mutation_catch s1 err)
           in s2\<lparr>showReactions := Null\<rparr>))"

text \<open>The object \<^verbatim>\<open>{ ...p.user, followers: updatedUser.followers }\<close> of line 180; spreading
  an absent \<^verbatim>\<open>p.user\<close> contributes no field.\<close>

definition withFollowers :: "userref option \<Rightarrow> jsval list option \<Rightarrow> userref" where
  "withFollowers pu fs =
     (case pu of
        None \<Rightarrow> \<lparr>ur_id = Undefined, username = None, followers = fs\<rparr>
      | Some u \<Rightarrow> u\<lparr>followers := fs\<rparr>)"

definition patchFollowers :: "post list \<Rightarrow> jsval \<Rightarrow> jsval list option \<Rightarrow> post list" where
  "patchFollowers ps postId fs =
     map (\<lambda>p. if p_id p = postId then p\<lparr>p_user := Some (withFollowers (p_user p) fs)\<rparr> else p) ps"

text \<open>\<^verbatim>\<open>handleFollowPost\<close> (lines 171-194); \<open>r\<close> is the outcome of \<^verbatim>\<open>followUser\<close>.\<close>

definition handleFollowPost :: "home \<Rightarrow> jsval \<Rightarrow> jsval \<Rightarrow> js_error + userref \<Rightarrow> home" where
  "handleFollowPost s postId targetId r =
     (case user s of
        None \<Rightarrow> s\<lparr>showAuthForm := True, isLogin := True\<rparr>
      | Some u \<Rightarrow>
          (let s1 = s\<lparr>net := net s @ [FollowUser targetId (token u)]\<rparr> in
           case r of
             Inr updatedUser \<Rightarrow> s1\<lparr>posts := patchFollowers (posts s) postId (followers updatedUser)\<rparr>
           | Inl err \<Rightarrow>
               if err_status err = Some 401 then on401 s1
               else s1\<lparr>error := ''Failed to follow user. Please try again.''\<rparr>))"

section \<open>Reaction projection (line 249)\<close>

text \<open>\<^verbatim>\<open>user?.id\<close>.\<close>

definition userIdOf :: "auth_user option \<Rightarrow> jsval" where
  "userIdOf u = (case u of None \<Rightarrow> Undefined | Some a \<Rightarrow> au_id a)"

text \<open>\<^verbatim>\<open>hasUserReacted\<close>: the result is \<^verbatim>\<open>undefined\<close> (\<open>None\<close>) when the post has no
  reaction array, a boolean otherwise.\<close>

definition hasUserReacted :: "auth_user option \<Rightarrow> post \<Rightarrow> string \<Rightarrow> bool option" where
  "hasUserReacted u p rtype =
     (case reactions p of
        None \<Rightarrow> None
      | Some rs \<Rightarrow> Some (list_ex (\<lambda>r. userId r = userIdOf u \<and> reactionType r = rtype) rs))"

section \<open>The specification's reading of the filter and of a 401\<close>






text \<open>The state \<open>s'\<close> a handler left, having started in \<open>s\<close>, shows an expired session:
  the identity is gone, the login form is open, and the effect on \<open>user\<close>, which runs
  because \<open>user\<close> changed, empties the post collection whatever the remote service would
  answer.\<close>

definition expired_outcome :: "home \<Rightarrow> home \<Rightarrow> js_error + post list \<Rightarrow> bool" where
  "expired_outcome s s' r =
     (user s' = None \<and> user s' \<noteq> user s \<and> showAuthForm s' \<and> isLogin s' \<and>
      posts (userEffect s' r) = [] \<and> filteredPosts (userEffect s' r) = [] \<and>
      net (userEffect s' r) = net s')"

section \<open>Sample feed\<close>

definition ex_author :: userref where
  "ex_author = \<lparr>ur_id = Num 1, username = Some ''ann'', followers = Some []\<rparr>"

definition ex_comment :: comment where
  "ex_comment = \<lparr>c_id = Num 10, c_text = ''first'', c_user = ex_author\<rparr>"

definition ex_post1 :: post where
  "ex_post1 = \<lparr>p_id = Num 1, title = Some ''Intro to Art'', content = Some ''Painting'',
      tags = Some ''Art, Music'', comments = Some [ex_comment],
      reactions = Some [\<lparr>userId = Num 2, reactionType = ''LOVE''\<rparr>,
                        \<lparr>userId = Num 1, reactionType = ''LIKE''\<rparr>],
      p_user = Some ex_author\<rparr>"

definition ex_post2 :: post where
  "ex_post2 = \<lparr>p_id = Num 2, title = Some ''Pasta'', content = None,
      tags = Some ''Cooking'', comments = None, reactions = None, p_user = None\<rparr>"

definition ex_post3 :: post where
  "ex_post3 = \<lparr>p_id = Num 3, title = Some ''Untagged notes'', content = Some ''misc'',
      tags = None, comments = Some [], reactions = Some [], p_user = None\<rparr>"

definition ex_updated :: post where
  "ex_updated = \<lparr>p_id = Num 2, title = Some ''Pasta'', content = Some ''al dente'',
      tags = Some ''Cooking'', comments = Some [], reactions = Some [], p_user = None\<rparr>"

definition ex_userA :: auth_user where
  "ex_userA = \<lparr>au_id = Num 1, token = Some ''tokA''\<rparr>"

definition ex_userB :: auth_user where
  "ex_userB = \<lparr>au_id = Num 2, token = Some ''tokB''\<rparr>"

definition ex_home :: home where
  "ex_home = \<lparr>user = Some ex_userA, showAuthForm = False, isLogin = False,
      posts = [ex_post1, ex_post2, ex_post3], filteredPosts = [ex_post1, ex_post2, ex_post3],
      loading = False, newComments = [''2'' \<mapsto> ''nice''], editingCommentId = Null,
      editedCommentText = ''fixed'', showReactions = Null, selectedTag = ''All'',
      searchQuery = [], error = [], net = []\<rparr>"

definition ex_401 :: js_error where
  "ex_401 = JsError ''Request failed with status code 401'' (Some 401)"

definition ex_500 :: js_error where
  "ex_500 = JsError ''Request failed with status code 500'' (Some 500)"

text \<open>The same page after the identity changed to another user while the editor of comment
  10, written by user 1, was open.\<close>

definition ex_homeB :: home where
  "ex_homeB = ex_home\<lparr>user := Some ex_userB, editingCommentId := Num 10\<rparr>"

definition ex_post1_edited :: post where
  "ex_post1_edited = ex_post1\<lparr>comments := Some [ex_comment\<lparr>c_text := ''fixed''\<rparr>]\<rparr>"


section \<open>Properties\<close>

subsection \<open>String primitives\<close>

lemma trim_Nil: "trim [] = []"
  by (simp add: trim_def)




lemma dropWhile_all_iff: "(\<forall>x\<in>set (dropWhile P xs). P x) \<longleftrightarrow> (\<forall>x\<in>set xs. P x)"
  by (induction xs) auto

lemma trim_blank_iff: "trim t = [] \<longleftrightarrow> (\<forall>c\<in>set t. is_ws c)"
  by (simp add: trim_def dropWhile_all_iff)


subsection \<open>The filter\<close>

lemma tagStage_All: "tagStage ''All'' ps = ps"
  by (simp add: tagStage_def)

lemma searchStage_blank: "trim q = [] \<Longrightarrow> searchStage q ps = ps"
  by (simp add: searchStage_def)






text \<open>
  C7. With the tag "All" and the empty query the filtered output is the post collection
  itself.
\<close>

theorem filter_identity:
  "selectedTag s = ''All'' \<Longrightarrow> searchQuery s = [] \<Longrightarrow> filteredPosts (filterEffect s) = posts s"
  by (simp add: filterEffect_def tagStage_All searchStage_blank trim_Nil)

theorem filter_identity_witness:
  "selectedTag ex_home = ''All'' \<and> searchQuery ex_home = [] \<and>
   filteredPosts (filterEffect ex_home) = [ex_post1, ex_post2, ex_post3]"
  using filter_identity [of ex_home]
  by (simp add: ex_home_def)

subsection \<open>Patching one post\<close>

lemma patch_length: "length (patch ps postId updatedPost) = length ps"
  by (simp add: patch_def)

lemma patch_nth:
  "i < length ps \<Longrightarrow>
   patch ps postId updatedPost ! i = (if p_id (ps ! i) = postId then updatedPost else ps ! i)"
  by (simp add: patch_def)

lemma patch_find:
  "p_id updatedPost = postId \<Longrightarrow> \<exists>p\<in>set ps. p_id p = postId \<Longrightarrow>
   find (\<lambda>p. p_id p = postId) (patch ps postId updatedPost) = Some updatedPost"
  by (induction ps) (auto simp: patch_def)

text \<open>
  C5. After \<open>patch ps postId updatedPost\<close> the sequence has the same length; every
  position that held a post with id \<open>postId\<close> holds \<open>updatedPost\<close>, every other position
  holds the post it held before; and when \<open>updatedPost\<close> carries the id \<open>postId\<close> and the
  collection had such a post, looking \<open>postId\<close> up yields \<open>updatedPost\<close>.
\<close>

theorem patch_replaces_in_place:
  "length (patch ps postId updatedPost) = length ps \<and>
   (\<forall>i<length ps. p_id (ps ! i) = postId \<longrightarrow> patch ps postId updatedPost ! i = updatedPost) \<and>
   (\<forall>i<length ps. p_id (ps ! i) \<noteq> postId \<longrightarrow> patch ps postId updatedPost ! i = ps ! i) \<and>
   (p_id updatedPost = postId \<and> (\<exists>p\<in>set ps. p_id p = postId) \<longrightarrow>
      find (\<lambda>p. p_id p = postId) (patch ps postId updatedPost) = Some updatedPost)"
  using patch_find [of updatedPost postId ps]
  by (simp add: patch_length patch_nth)

theorem patch_replaces_in_place_witness:
  "patch [ex_post1, ex_post2, ex_post3] (Num 2) ex_updated ! 1 = ex_updated \<and>
   patch [ex_post1, ex_post2, ex_post3] (Num 2) ex_updated ! 0 = ex_post1 \<and>
   patch [ex_post1, ex_post2, ex_post3] (Num 2) ex_updated ! 2 = ex_post3 \<and>
   length (patch [ex_post1, ex_post2, ex_post3] (Num 2) ex_updated) = 3 \<and>
   find (\<lambda>p. p_id p = Num 2) (patch [ex_post1, ex_post2, ex_post3] (Num 2) ex_updated)
     = Some ex_updated"
proof -
  let ?ps = "[ex_post1, ex_post2, ex_post3]"
  note frame = patch_replaces_in_place [of ?ps "Num 2" ex_updated]
  have ids: "p_id (?ps ! 0) \<noteq> Num 2" "p_id (?ps ! 1) = Num 2" "p_id (?ps ! 2) \<noteq> Num 2"
    "p_id ex_updated = Num 2"
    by (simp_all add: ex_post1_def ex_post2_def ex_post3_def ex_updated_def)
  have in_set: "\<exists>p\<in>set ?ps. p_id p = Num 2"
    by (simp add: ex_post2_def)
  from frame ids in_set show ?thesis
    by simp
qed

subsection \<open>Reactions of the current user\<close>

text \<open>
  C8. For a post and a user, \<open>hasUserReacted\<close> returns \<^verbatim>\<open>true\<close> exactly when the post has
  a reaction array holding a reaction whose \<open>userId\<close> is strictly equal to the user's id
  and whose \<open>reactionType\<close> is the asked type (''LIKE'', ''LOVE'' or any other).
\<close>

theorem hasUserReacted_iff:
  "hasUserReacted (Some u) p rtype = Some True \<longleftrightarrow>
   (\<exists>rs. reactions p = Some rs \<and> (\<exists>r\<in>set rs. userId r = au_id u \<and> reactionType r = rtype))"
  by (simp add: hasUserReacted_def userIdOf_def list_ex_iff split: option.splits)

theorem hasUserReacted_iff_witness:
  "hasUserReacted (Some ex_userA) ex_post1 ''LIKE'' = Some True \<and>
   hasUserReacted (Some ex_userA) ex_post1 ''LOVE'' \<noteq> Some True \<and>
   hasUserReacted (Some ex_userB) ex_post1 ''LOVE'' = Some True \<and>
   hasUserReacted (Some ex_userB) ex_post2 ''LOVE'' \<noteq> Some True"
  using hasUserReacted_iff [of ex_userA ex_post1 "''LIKE''"]
    hasUserReacted_iff [of ex_userA ex_post1 "''LOVE''"]
    hasUserReacted_iff [of ex_userB ex_post1 "''LOVE''"]
    hasUserReacted_iff [of ex_userB ex_post2 "''LOVE''"]
  by (simp add: ex_userA_def ex_userB_def ex_post1_def ex_post2_def)

subsection \<open>Local rejections\<close>

lemma submit_blank_noop:
  "newComments s (String_js postId) = Some txt \<Longrightarrow> \<forall>c\<in>set txt. is_ws c \<Longrightarrow>
   handleCommentSubmit s postId r = s"
  by (simp add: handleCommentSubmit_def trim_blank_iff split: option.splits)

lemma submit_undefined_noop:
  "newComments s (String_js postId) = None \<Longrightarrow> handleCommentSubmit s postId r = s"
  by (simp add: handleCommentSubmit_def split: option.splits)

text \<open>
  C9. When the draft comment of the post is empty or consists of white space only,
  \<open>handleCommentSubmit\<close> issues no remote request and leaves the post collection (indeed
  the whole state) as it was, whatever the state and whatever the remote service would
  have answered.
\<close>

theorem blank_comment_rejected:
  "newComments s (String_js postId) = Some txt \<Longrightarrow> \<forall>c\<in>set txt. is_ws c \<Longrightarrow>
   net (handleCommentSubmit s postId r) = net s \<and>
   posts (handleCommentSubmit s postId r) = posts s \<and>
   handleCommentSubmit s postId r = s"
  by (simp add: submit_blank_noop)

theorem blank_comment_rejected_witness:
  "newComments (ex_home\<lparr>newComments := [''2'' \<mapsto> ''   '']\<rparr>) (String_js (Num 2)) = Some ''   '' \<and>
   net (handleCommentSubmit (ex_home\<lparr>newComments := [''2'' \<mapsto> ''   '']\<rparr>) (Num 2) (Inr ex_updated)) = [] \<and>
   posts (handleCommentSubmit (ex_home\<lparr>newComments := [''2'' \<mapsto> ''   '']\<rparr>) (Num 2) (Inr ex_updated))
     = [ex_post1, ex_post2, ex_post3]"
  using blank_comment_rejected [of "ex_home\<lparr>newComments := [''2'' \<mapsto> ''   '']\<rparr>" "Num 2" "''   ''"
      "Inr ex_updated"]
  by (simp add: ex_home_def digits.simps digit_char_def is_ws_def)

lemma userToken_None_iff:
  "userToken s = None \<longleftrightarrow>
   user s = None \<or> (\<exists>u. user s = Some u \<and> (token u = None \<or> token u = Some []))"
  by (auto simp: userToken_def split: option.splits if_splits)





subsection \<open>Failed remote calls\<close>

lemma on401_fields:
  "user (on401 s) = None" "showAuthForm (on401 s)" "isLogin (on401 s)"
  "posts (on401 s) = posts s" "net (on401 s) = net s"
  by (simp_all add: on401_def logout_def)

lemma userEffect_logged_out:
  "user s = None \<Longrightarrow> userEffect s r = s\<lparr>posts := [], filteredPosts := []\<rparr>"
  by (simp add: userEffect_def)

lemma expired_outcome_on401:
  "user s \<noteq> None \<Longrightarrow> user s1 = user s \<Longrightarrow> expired_outcome s (on401 s1) r"
  by (auto simp: expired_outcome_def on401_fields userEffect_logged_out)

lemma fetchPosts_401:
  "err_status e = Some 401 \<Longrightarrow> net (fetchPosts s (Inl e)) \<noteq> net s \<Longrightarrow>
   expired_outcome s (fetchPosts s (Inl e)) r"
  by (auto simp: fetchPosts_def fetchPosts_try_def fetchPosts_catch_def userToken_def
      expired_outcome_def on401_def logout_def userEffect_def split: option.splits if_splits)

lemma handleCommentSubmit_401:
  "err_status e = Some 401 \<Longrightarrow> net (handleCommentSubmit s postId (Inl e)) \<noteq> net s \<Longrightarrow>
   expired_outcome s (handleCommentSubmit s postId (Inl e)) r"
  by (auto simp: handleCommentSubmit_def mutation_catch_def Let_def expired_outcome_on401
      split: option.splits if_splits)

lemma handleCommentUpdate_401:
  "err_status e = Some 401 \<Longrightarrow> net (handleCommentUpdate s postId commentId (Inl e)) \<noteq> net s \<Longrightarrow>
   expired_outcome s (handleCommentUpdate s postId commentId (Inl e)) r"
  by (auto simp: handleCommentUpdate_def mutation_catch_def Let_def expired_outcome_on401
      split: option.splits if_splits)

lemma handleCommentDelete_401:
  "err_status e = Some 401 \<Longrightarrow> net (handleCommentDelete s postId commentId (Inl e)) \<noteq> net s \<Longrightarrow>
   expired_outcome s (handleCommentDelete s postId commentId (Inl e)) r"
  by (auto simp: handleCommentDelete_def mutation_catch_def Let_def expired_outcome_on401
      split: option.splits if_splits)

lemma handleReaction_401:
  "err_status e = Some 401 \<Longrightarrow> net (handleReaction s postId rtype (Inl e)) \<noteq> net s \<Longrightarrow>
   expired_outcome s (handleReaction s postId rtype (Inl e)) r"
  by (auto simp: handleReaction_def mutation_catch_def Let_def expired_outcome_def on401_def
      logout_def userEffect_def split: option.splits if_splits)

lemma handleFollowPost_401:
  "err_status e = Some 401 \<Longrightarrow> net (handleFollowPost s postId targetId (Inl e)) \<noteq> net s \<Longrightarrow>
   expired_outcome s (handleFollowPost s postId targetId (Inl e)) r"
  by (auto simp: handleFollowPost_def Let_def expired_outcome_on401
      split: option.splits if_splits)

text \<open>
  C1. Whenever one of the six operations issues its remote request and the request fails
  with status 401, the handler leaves the session cleared (\<open>user\<close> is \<^verbatim>\<open>null\<close>, where it
  was not before) and the login form open, and the effect on \<open>user\<close> that this change
  triggers empties the post collection without issuing a request.
\<close>

theorem unauthorized_clears_session:
  "err_status e = Some 401 \<Longrightarrow>
   (net (fetchPosts s (Inl e)) \<noteq> net s \<longrightarrow>
      expired_outcome s (fetchPosts s (Inl e)) r) \<and>
   (net (handleCommentSubmit s postId (Inl e)) \<noteq> net s \<longrightarrow>
      expired_outcome s (handleCommentSubmit s postId (Inl e)) r) \<and>
   (net (handleCommentUpdate s postId commentId (Inl e)) \<noteq> net s \<longrightarrow>
      expired_outcome s (handleCommentUpdate s postId commentId (Inl e)) r) \<and>
   (net (handleCommentDelete s postId commentId (Inl e)) \<noteq> net s \<longrightarrow>
      expired_outcome s (handleCommentDelete s postId commentId (Inl e)) r) \<and>
   (net (handleReaction s postId rtype (Inl e)) \<noteq> net s \<longrightarrow>
      expired_outcome s (handleReaction s postId rtype (Inl e)) r) \<and>
   (net (handleFollowPost s postId targetId (Inl e)) \<noteq> net s \<longrightarrow>
      expired_outcome s (handleFollowPost s postId targetId (Inl e)) r)"
  by (simp add: fetchPosts_401 handleCommentSubmit_401 handleCommentUpdate_401
      handleCommentDelete_401 handleReaction_401 handleFollowPost_401)

theorem unauthorized_clears_session_witness:
  "err_status ex_401 = Some 401 \<and>
   net (fetchPosts ex_home (Inl ex_401)) = [GetPosts (Some ''tokA'')] \<and>
   expired_outcome ex_home (fetchPosts ex_home (Inl ex_401)) (Inr [ex_updated]) \<and>
   net (handleCommentSubmit ex_home (Num 2) (Inl ex_401))
     = [CommentOnPost (Num 2) ''nice'' (Some ''tokA'')] \<and>
   expired_outcome ex_home (handleCommentSubmit ex_home (Num 2) (Inl ex_401)) (Inr [ex_updated]) \<and>
   net (handleCommentUpdate ex_home (Num 1) (Num 10) (Inl ex_401))
     = [UpdateComment (Num 1) (Num 10) ''fixed'' (Some ''tokA'')] \<and>
   expired_outcome ex_home (handleCommentUpdate ex_home (Num 1) (Num 10) (Inl ex_401))
     (Inr [ex_updated]) \<and>
   net (handleCommentDelete ex_home (Num 1) (Num 10) (Inl ex_401))
     = [DeleteComment (Num 10) (Some ''tokA'')] \<and>
   expired_outcome ex_home (handleCommentDelete ex_home (Num 1) (Num 10) (Inl ex_401))
     (Inr [ex_updated]) \<and>
   net (handleReaction ex_home (Num 2) ''LIKE'' (Inl ex_401))
     = [AddReaction (Num 2) ''LIKE'' (Some ''tokA'')] \<and>
   expired_outcome ex_home (handleReaction ex_home (Num 2) ''LIKE'' (Inl ex_401))
     (Inr [ex_updated]) \<and>
   net (handleFollowPost ex_home (Num 1) (Num 1) (Inl ex_401))
     = [FollowUser (Num 1) (Some ''tokA'')] \<and>
   expired_outcome ex_home (handleFollowPost ex_home (Num 1) (Num 1) (Inl ex_401))
     (Inr [ex_updated])"
proof -
  have st: "err_status ex_401 = Some 401"
    by (simp add: ex_401_def)
  have n1: "net (fetchPosts ex_home (Inl ex_401)) = [GetPosts (Some ''tokA'')]"
    by (simp add: fetchPosts_def fetchPosts_try_def fetchPosts_catch_def userToken_def
        on401_def logout_def ex_home_def ex_userA_def ex_401_def)
  have n2: "net (handleCommentSubmit ex_home (Num 2) (Inl ex_401))
      = [CommentOnPost (Num 2) ''nice'' (Some ''tokA'')]"
    by (simp add: handleCommentSubmit_def mutation_catch_def on401_def logout_def ex_home_def
        ex_userA_def ex_401_def digits.simps digit_char_def trim_def is_ws_def)
  have n3: "net (handleCommentUpdate ex_home (Num 1) (Num 10) (Inl ex_401))
      = [UpdateComment (Num 1) (Num 10) ''fixed'' (Some ''tokA'')]"
    by (simp add: handleCommentUpdate_def mutation_catch_def on401_def logout_def ex_home_def
        ex_userA_def ex_401_def trim_def is_ws_def)
  have n4: "net (handleCommentDelete ex_home (Num 1) (Num 10) (Inl ex_401))
      = [DeleteComment (Num 10) (Some ''tokA'')]"
    by (simp add: handleCommentDelete_def mutation_catch_def on401_def logout_def ex_home_def
        ex_userA_def ex_401_def)
  have n5: "net (handleReaction ex_home (Num 2) ''LIKE'' (Inl ex_401))
      = [AddReaction (Num 2) ''LIKE'' (Some ''tokA'')]"
    by (simp add: handleReaction_def mutation_catch_def on401_def logout_def ex_home_def
        ex_userA_def ex_401_def)
  have n6: "net (handleFollowPost ex_home (Num 1) (Num 1) (Inl ex_401))
      = [FollowUser (Num 1) (Some ''tokA'')]"
    by (simp add: handleFollowPost_def on401_def logout_def ex_home_def ex_userA_def ex_401_def)
  have n0: "net ex_home = []"
    by (simp add: ex_home_def)
  from unauthorized_clears_session [OF st, of ex_home "Inr [ex_updated]" "Num 2" "Num 10" "''LIKE''" "Num 1"]
    unauthorized_clears_session [OF st, of ex_home "Inr [ex_updated]" "Num 1" "Num 10" "''LIKE''" "Num 1"]
    st n0 n1 n2 n3 n4 n5 n6
  show ?thesis
    by simp
qed

lemma handleCommentSubmit_failed:
  "err_status e \<noteq> Some 401 \<Longrightarrow>
   posts (handleCommentSubmit s postId (Inl e)) = posts s \<and>
   user (handleCommentSubmit s postId (Inl e)) = user s"
  by (simp add: handleCommentSubmit_def mutation_catch_def Let_def split: option.splits)

lemma handleCommentUpdate_failed:
  "err_status e \<noteq> Some 401 \<Longrightarrow>
   posts (handleCommentUpdate s postId commentId (Inl e)) = posts s \<and>
   user (handleCommentUpdate s postId commentId (Inl e)) = user s"
  by (simp add: handleCommentUpdate_def mutation_catch_def Let_def split: option.splits)

lemma handleCommentDelete_failed:
  "err_status e \<noteq> Some 401 \<Longrightarrow>
   posts (handleCommentDelete s postId commentId (Inl e)) = posts s \<and>
   user (handleCommentDelete s postId commentId (Inl e)) = user s"
  by (simp add: handleCommentDelete_def mutation_catch_def Let_def split: option.splits)

lemma handleReaction_failed:
  "err_status e \<noteq> Some 401 \<Longrightarrow>
   posts (handleReaction s postId rtype (Inl e)) = posts s \<and>
   user (handleReaction s postId rtype (Inl e)) = user s"
  by (simp add: handleReaction_def mutation_catch_def Let_def split: option.splits)

lemma handleFollowPost_failed:
  "err_status e \<noteq> Some 401 \<Longrightarrow>
   posts (handleFollowPost s postId targetId (Inl e)) = posts s \<and>
   user (handleFollowPost s postId targetId (Inl e)) = user s"
  by (simp add: handleFollowPost_def Let_def split: option.splits)

text \<open>
  C4. When the remote call of a mutation (add, edit or delete a comment, react, follow)
  fails with an error whose status is not 401, or that carries no status, the handler
  leaves the post collection as it was; the session is unchanged too, so the effect on
  \<open>user\<close> does not run.
\<close>

theorem failed_mutation_keeps_posts:
  "err_status e \<noteq> Some 401 \<Longrightarrow>
   posts (handleCommentSubmit s postId (Inl e)) = posts s \<and>
   user (handleCommentSubmit s postId (Inl e)) = user s \<and>
   posts (handleCommentUpdate s postId commentId (Inl e)) = posts s \<and>
   user (handleCommentUpdate s postId commentId (Inl e)) = user s \<and>
   posts (handleCommentDelete s postId commentId (Inl e)) = posts s \<and>
   user (handleCommentDelete s postId commentId (Inl e)) = user s \<and>
   posts (handleReaction s postId rtype (Inl e)) = posts s \<and>
   user (handleReaction s postId rtype (Inl e)) = user s \<and>
   posts (handleFollowPost s postId targetId (Inl e)) = posts s \<and>
   user (handleFollowPost s postId targetId (Inl e)) = user s"
  by (simp add: handleCommentSubmit_failed handleCommentUpdate_failed
      handleCommentDelete_failed handleReaction_failed handleFollowPost_failed)

theorem failed_mutation_keeps_posts_witness:
  "err_status ex_500 \<noteq> Some 401 \<and>
   net (handleCommentSubmit ex_home (Num 2) (Inl ex_500))
     = [CommentOnPost (Num 2) ''nice'' (Some ''tokA'')] \<and>
   posts (handleCommentSubmit ex_home (Num 2) (Inl ex_500)) = [ex_post1, ex_post2, ex_post3] \<and>
   posts (handleCommentUpdate ex_home (Num 2) (Num 10) (Inl ex_500)) = [ex_post1, ex_post2, ex_post3] \<and>
   posts (handleCommentDelete ex_home (Num 2) (Num 10) (Inl ex_500)) = [ex_post1, ex_post2, ex_post3] \<and>
   posts (handleReaction ex_home (Num 2) ''LIKE'' (Inl ex_500)) = [ex_post1, ex_post2, ex_post3] \<and>
   posts (handleFollowPost ex_home (Num 2) (Num 1) (Inl ex_500)) = [ex_post1, ex_post2, ex_post3]"
proof -
  have st: "err_status ex_500 \<noteq> Some 401"
    by (simp add: ex_500_def)
  have sent: "net (handleCommentSubmit ex_home (Num 2) (Inl ex_500))
      = [CommentOnPost (Num 2) ''nice'' (Some ''tokA'')]"
    by (simp add: handleCommentSubmit_def mutation_catch_def ex_home_def ex_userA_def
        ex_500_def digits.simps digit_char_def trim_def is_ws_def)
  have ps: "posts ex_home = [ex_post1, ex_post2, ex_post3]"
    by (simp add: ex_home_def)
  from failed_mutation_keeps_posts [OF st, of ex_home "Num 2" "Num 10" "''LIKE''" "Num 1"]
    st sent ps
  show ?thesis
    by simp
qed

subsection \<open>Who may edit a comment\<close>

lemma startEditing_rejects_other_user:
  "user s = None \<or> (\<exists>u. user s = Some u \<and> String_js (au_id u) \<noteq> String_js (ur_id (c_user c))) \<Longrightarrow>
   startEditingComment s c = s"
  by (auto simp: startEditingComment_def)

lemma startEditing_accepts_author:
  "user s = Some u \<Longrightarrow> String_js (au_id u) = String_js (ur_id (c_user c)) \<Longrightarrow>
   startEditingComment s c = s\<lparr>editingCommentId := c_id c, editedCommentText := c_text c\<rparr>"
  by (simp add: startEditingComment_def)

text \<open>
  C2. An edit by a user who is not the comment's author must be rejected before any
  request is issued. \<open>startEditingComment\<close> makes the check, \<open>handleCommentUpdate\<close>
  does not: user 1 opens the editor of the own comment 10, the identity changes to user 2
  while the editor is open, and \<open>handleCommentUpdate\<close> then sends the update request with
  the token of user 2 and writes the answer into the post collection.
\<close>

theorem update_by_other_user_is_sent:
  "String_js (au_id ex_userB) \<noteq> String_js (ur_id (c_user ex_comment)) \<and>
   editingCommentId (startEditingComment ex_home ex_comment) = Num 10 \<and>
   editingCommentId ex_homeB = Num 10 \<and>
   user ex_homeB = Some ex_userB \<and>
   comments ex_post1 = Some [ex_comment] \<and>
   posts ex_homeB = [ex_post1, ex_post2, ex_post3] \<and>
   net ex_homeB = [] \<and>
   startEditingComment ex_homeB ex_comment = ex_homeB \<and>
   net (handleCommentUpdate ex_homeB (Num 1) (Num 10) (Inr ex_post1_edited))
     = [UpdateComment (Num 1) (Num 10) ''fixed'' (Some ''tokB'')] \<and>
   posts (handleCommentUpdate ex_homeB (Num 1) (Num 10) (Inr ex_post1_edited))
     = [ex_post1_edited, ex_post2, ex_post3] \<and>
   ex_post1_edited \<noteq> ex_post1"
  by (simp add: handleCommentUpdate_def startEditingComment_def patch_def ex_homeB_def
      ex_home_def ex_userA_def ex_userB_def ex_comment_def ex_author_def ex_post1_def
      ex_post2_def ex_post3_def ex_post1_edited_def digits.simps digit_char_def trim_def
      is_ws_def)

subsection \<open>Posts without tags\<close>

lemma untagged_never_matches:
  "tags p = None \<or> tags p = Some [] \<Longrightarrow> \<not> tagMatches sel p"
  by (auto simp: tagMatches_def)

text \<open>
  C10. A post of the collection whose tags field is absent or empty is matched by the tag
  callback for no selected tag; so with a selected tag other than "All" it is removed by
  the tag stage and is not in the filtered output, whatever the query. With the tag "All"
  the tag stage keeps it, and with a blank query it is in the filtered output.
\<close>

theorem untagged_post_filtering:
  "tags p = None \<or> tags p = Some [] \<Longrightarrow> p \<in> set (posts s) \<Longrightarrow>
   \<not> tagMatches sel p \<and>
   (sel \<noteq> ''All'' \<longrightarrow>
      p \<notin> set (tagStage sel (posts s)) \<and>
      p \<notin> set (filteredPosts (filterEffect (s\<lparr>selectedTag := sel\<rparr>)))) \<and>
   p \<in> set (tagStage ''All'' (posts s)) \<and>
   (trim (searchQuery s) = [] \<longrightarrow>
      p \<in> set (filteredPosts (filterEffect (s\<lparr>selectedTag := ''All''\<rparr>))))"
  by (auto simp: filterEffect_def searchStage_def tagStage_def tagMatches_def)

theorem untagged_post_filtering_witness:
  "tags ex_post3 = None \<and> ex_post3 \<in> set (posts ex_home) \<and>
   ex_post3 \<notin> set (tagStage ''Art'' (posts ex_home)) \<and>
   ex_post3 \<notin> set (filteredPosts (filterEffect (ex_home\<lparr>selectedTag := ''Art''\<rparr>))) \<and>
   ex_post3 \<in> set (tagStage ''All'' (posts ex_home)) \<and>
   ex_post3 \<in> set (filteredPosts (filterEffect (ex_home\<lparr>selectedTag := ''All''\<rparr>)))"
proof -
  have t: "tags ex_post3 = None"
    by (simp add: ex_post3_def)
  then have h: "tags ex_post3 = None \<or> tags ex_post3 = Some []"
    by simp
  have q: "trim (searchQuery ex_home) = []" and m: "ex_post3 \<in> set (posts ex_home)"
    by (simp_all add: ex_home_def trim_def)
  from untagged_post_filtering [OF h m, of "''Art''"] t q m
  show ?thesis
    by simp
qed

end
